theory Spec2Isabelle
  imports Complex_Main
begin

section \<open>JavaScript values used by both components\<close>

text \<open>
  A value of TypeScript type \<open>string | null | undefined\<close> is a \<open>string option\<close>
  (\<open>None\<close> for \<open>null\<close> and \<open>undefined\<close>). Such a value is truthy exactly when it is a
  non-empty string.
\<close>

definition truthy :: "string option \<Rightarrow> bool" where
  "truthy v = (case v of None \<Rightarrow> False | Some s \<Rightarrow> s \<noteq> [])"

text \<open>The expression \<open>v || d\<close> for \<open>v : string | null | undefined\<close> and a string \<open>d\<close>.\<close>

definition or_else :: "string option \<Rightarrow> string \<Rightarrow> string" where
  "or_else v d = (if truthy v then the v else d)"

text \<open>
  A plain object with string keys is the list of its own enumerable properties, in the
  order in which \<open>Object.keys\<close> enumerates them. Property access \<open>obj[k]\<close> is
  \<open>map_of obj k\<close>, with \<open>None\<close> for \<open>undefined\<close>. (A property inherited from
  \<open>Object.prototype\<close> has no element 0, so in the accesses \<open>obj[k][0]\<close> made below it
  behaves as a missing key does.)
\<close>

type_synonym 'a js_object = "(string \<times> 'a) list"

definition Object_keys :: "'a js_object \<Rightarrow> string list" where
  "Object_keys obj = map fst obj"

section \<open>Settings Editor (ui/components/SettingsDialog.tsx)\<close>

subsection \<open>The configuration document\<close>

record ModelInfo =
  name :: string
  displayName :: string

type_synonym providers = "ModelInfo list js_object"

text \<open>
  \<open>SettingsType\<close>. The interface declares both provider mappings as required, but the
  document is parsed JSON under a type cast and the component guards against a missing
  mapping (\<open>|| {}\<close>, \<open>?.\<close>, \<open>config.chatModelProviders &&\<close>), so a mapping may be
  absent (\<open>None\<close>).
\<close>

record SettingsType =
  chatModelProviders :: "providers option"
  embeddingModelProviders :: "providers option"
  openaiApiKey :: string
  groqApiKey :: string
  anthropicApiKey :: string
  geminiApiKey :: string
  openrouterApiKey :: string
  openrouterHttpReferer :: string
  openrouterAppName :: string
  ollamaApiUrl :: string

subsection \<open>Component state and the world around it\<close>

datatype request = GET_config | POST_config SettingsType

text \<open>
  Effects other than state updates and local-storage writes, in the order performed:
  a \<open>fetch\<close> call, a \<open>console.error\<close> call (its label and the error), and
  \<open>window.location.reload()\<close>.
\<close>

datatype effect = Fetch request | ConsoleError string string | Reload

text \<open>
  The \<open>useState\<close> cells of the component, the \<open>isOpen\<close> property (changed through
  \<open>setIsOpen\<close>), the browser's local storage and the effects performed so far.
\<close>

record state =
  config :: "SettingsType option"
  chatModels :: providers
  embeddingModels :: providers
  selectedChatModelProvider :: "string option"
  selectedChatModel :: "string option"
  selectedEmbeddingModelProvider :: "string option"
  selectedEmbeddingModel :: "string option"
  customOpenAIApiKey :: string
  customOpenAIBaseURL :: string
  isLoading :: bool
  isUpdating :: bool
  isOpen :: bool
  localStorage :: "string \<rightharpoonup> string"
  effects :: "effect list"

text \<open>The initial values given to \<open>useState\<close>, for a closed dialog.\<close>

definition initial_state :: "(string \<rightharpoonup> string) \<Rightarrow> state" where
  "initial_state storage =
     \<lparr>config = None, chatModels = [], embeddingModels = [],
      selectedChatModelProvider = None, selectedChatModel = None,
      selectedEmbeddingModelProvider = None, selectedEmbeddingModel = None,
      customOpenAIApiKey = [], customOpenAIBaseURL = [],
      isLoading = False, isUpdating = False, isOpen = False,
      localStorage = storage, effects = []\<rparr>"

subsection \<open>fetchConfig (lines 97-135)\<close>

text \<open>\<open>providers || {}\<close>\<close>

definition or_empty_object :: "providers option \<Rightarrow> providers" where
  "or_empty_object obj = (case obj of None \<Rightarrow> [] | Some ps \<Rightarrow> ps)"

text \<open>\<open>providers?.[provider]?.[0]?.name ?? ''\<close>\<close>

definition optional_first_name :: "providers option \<Rightarrow> string \<Rightarrow> string" where
  "optional_first_name obj provider =
     (case obj of
        None \<Rightarrow> []
      | Some ps \<Rightarrow>
          (case map_of ps provider of
             None \<Rightarrow> []
           | Some models \<Rightarrow> (case models of [] \<Rightarrow> [] | m # _ \<Rightarrow> name m)))"

text \<open>The \<open>try\<close> block after both \<open>await\<close>s have returned the document (lines 107-129).\<close>

definition fetchConfig_loaded :: "SettingsType \<Rightarrow> state \<Rightarrow> state" where
  "fetchConfig_loaded data s =
     (let chatModelProvidersKeys = Object_keys (or_empty_object (chatModelProviders data));
          embeddingModelProvidersKeys =
            Object_keys (or_empty_object (embeddingModelProviders data));
          defaultChatModelProvider =
            (if length chatModelProvidersKeys > 0 then chatModelProvidersKeys ! 0 else []);
          defaultEmbeddingModelProvider =
            (if length embeddingModelProvidersKeys > 0
             then embeddingModelProvidersKeys ! 0 else []);
          chatModelProvider =
            or_else (localStorage s ''chatModelProvider'') defaultChatModelProvider;
          chatModel =
            or_else (localStorage s ''chatModel'')
              (optional_first_name (chatModelProviders data) chatModelProvider);
          embeddingModelProvider =
            or_else (localStorage s ''embeddingModelProvider'') defaultEmbeddingModelProvider;
          embeddingModel =
            or_else (localStorage s ''embeddingModel'')
              (optional_first_name (embeddingModelProviders data) embeddingModelProvider)
      in s\<lparr>config := Some data,
            selectedChatModelProvider := Some chatModelProvider,
            selectedChatModel := Some chatModel,
            selectedEmbeddingModelProvider := Some embeddingModelProvider,
            selectedEmbeddingModel := Some embeddingModel,
            customOpenAIApiKey := or_else (localStorage s ''openAIApiKey'') [],
            customOpenAIBaseURL := or_else (localStorage s ''openAIBaseURL'') [],
            chatModels := or_empty_object (chatModelProviders data),
            embeddingModels := or_empty_object (embeddingModelProviders data)\<rparr>)"

text \<open>
  \<open>fetchConfig\<close> runs in two steps around its suspension point. Up to the first
  \<open>await\<close> it sets the loading flag and issues the request. When the request settles,
  with the document (\<open>Inr\<close>) or with an error thrown by \<open>fetch\<close> or by \<open>res.json()\<close>
  (\<open>Inl\<close>), the rest of the \<open>try\<close> or the \<open>catch\<close> runs, and then the \<open>finally\<close>.
\<close>

definition fetchConfig_start :: "state \<Rightarrow> state" where
  "fetchConfig_start s = s\<lparr>isLoading := True, effects := effects s @ [Fetch GET_config]\<rparr>"

definition fetchConfig_settle :: "string + SettingsType \<Rightarrow> state \<Rightarrow> state" where
  "fetchConfig_settle res s =
     (let s' = (case res of
                  Inr data \<Rightarrow> fetchConfig_loaded data s
                | Inl error \<Rightarrow>
                    s\<lparr>effects := effects s @ [ConsoleError ''Error fetching config:'' error]\<rparr>)
      in s'\<lparr>isLoading := False\<rparr>)"

definition fetchConfig :: "string + SettingsType \<Rightarrow> state \<Rightarrow> state" where
  "fetchConfig res s = fetchConfig_settle res (fetchConfig_start s)"

text \<open>The effect hook on \<open>isOpen\<close> (lines 95-139).\<close>

definition useEffect_isOpen :: "string + SettingsType \<Rightarrow> state \<Rightarrow> state" where
  "useEffect_isOpen res s = (if isOpen s then fetchConfig res s else s)"

subsection \<open>The provider selectors (lines 217-227 and 333-339)\<close>

datatype js_error = TypeError

text \<open>
  \<open>providers[value][0].name\<close>, with no optional chaining: reading a property of
  \<open>undefined\<close> throws a \<open>TypeError\<close>. That happens when the mapping is missing, when it
  has no such provider, and when the provider's list is empty.
\<close>

definition first_name :: "providers option \<Rightarrow> string \<Rightarrow> js_error + string" where
  "first_name obj provider =
     (case obj of
        None \<Rightarrow> Inl TypeError
      | Some ps \<Rightarrow>
          (case map_of ps provider of
             None \<Rightarrow> Inl TypeError
           | Some models \<Rightarrow> (case models of [] \<Rightarrow> Inl TypeError | m # _ \<Rightarrow> Inr (name m))))"

text \<open>
  A handler returns the state with the setter calls it made, and the error it threw, if
  any; a setter call made before the throw stays made. The selectors are rendered only
  inside the form, where \<open>config\<close> is not null; reading a property of a null \<open>config\<close>
  would throw as well.
\<close>

definition chatModelProvider_onChange :: "string \<Rightarrow> state \<Rightarrow> state \<times> js_error option" where
  "chatModelProvider_onChange v s =
     (let s1 = s\<lparr>selectedChatModelProvider := Some v\<rparr>
      in if v = ''custom_openai'' then (s1\<lparr>selectedChatModel := Some []\<rparr>, None)
         else
           (case config s of
              None \<Rightarrow> (s1, Some TypeError)
            | Some c \<Rightarrow>
                (case first_name (chatModelProviders c) v of
                   Inl e \<Rightarrow> (s1, Some e)
                 | Inr n \<Rightarrow> (s1\<lparr>selectedChatModel := Some n\<rparr>, None))))"

definition embeddingModelProvider_onChange ::
  "string \<Rightarrow> state \<Rightarrow> state \<times> js_error option" where
  "embeddingModelProvider_onChange v s =
     (let s1 = s\<lparr>selectedEmbeddingModelProvider := Some v\<rparr>
      in case config s of
           None \<Rightarrow> (s1, Some TypeError)
         | Some c \<Rightarrow>
             (case first_name (embeddingModelProviders c) v of
                Inl e \<Rightarrow> (s1, Some e)
              | Inr n \<Rightarrow> (s1\<lparr>selectedEmbeddingModel := Some n\<rparr>, None)))"

subsection \<open>handleSubmit (lines 141-167)\<close>

definition setItem :: "string \<Rightarrow> string \<Rightarrow> (string \<rightharpoonup> string) \<Rightarrow> (string \<rightharpoonup> string)" where
  "setItem k v storage = storage(k \<mapsto> v)"

text \<open>\<open>if (selection) localStorage.setItem(k, selection)\<close>\<close>

definition setItem_if_truthy ::
  "string \<Rightarrow> string option \<Rightarrow> (string \<rightharpoonup> string) \<Rightarrow> (string \<rightharpoonup> string)" where
  "setItem_if_truthy k selection storage =
     (if truthy selection then setItem k (the selection) storage else storage)"

text \<open>
  The argument is how the \<open>POST\<close> settles: \<open>Inr\<close> when \<open>fetch\<close> resolves (whatever the
  HTTP status: the response is not looked at), \<open>Inl\<close> when it rejects. The selections
  written after the \<open>await\<close> are those of the render in which the button was pressed.
\<close>

definition handleSubmit :: "string + unit \<Rightarrow> state \<Rightarrow> state" where
  "handleSubmit res s =
     (case config s of
        None \<Rightarrow> s
      | Some c \<Rightarrow>
          (let s1 = s\<lparr>isUpdating := True, effects := effects s @ [Fetch (POST_config c)]\<rparr>;
               s2 = (case res of
                       Inr _ \<Rightarrow>
                         s1\<lparr>localStorage :=
                              setItem ''openAIBaseURL'' (customOpenAIBaseURL s)
                               (setItem ''openAIApiKey'' (customOpenAIApiKey s)
                                 (setItem_if_truthy ''embeddingModel'' (selectedEmbeddingModel s)
                                   (setItem_if_truthy ''embeddingModelProvider''
                                      (selectedEmbeddingModelProvider s)
                                     (setItem_if_truthy ''chatModel'' (selectedChatModel s)
                                       (setItem_if_truthy ''chatModelProvider''
                                          (selectedChatModelProvider s)
                                          (localStorage s1))))))\<rparr>
                     | Inl error \<Rightarrow>
                         s1\<lparr>effects :=
                              effects s1 @ [ConsoleError ''Error updating config:'' error]\<rparr>)
           in s2\<lparr>isUpdating := False, isOpen := False,
                 effects := effects s2 @ [Reload]\<rparr>))"

subsection \<open>A reply that parses to null (lines 106-109, 130-134)\<close>

text \<open>
  \<open>res.json()\<close> can return \<open>null\<close> for the body \<open>null\<close>. Then \<open>setConfig(data)\<close> has
  run with \<open>null\<close> when \<open>data.chatModelProviders\<close> throws at line 109; the \<open>catch\<close> logs
  the error and the \<open>finally\<close> clears the loading flag. The argument is the text of the
  thrown \<open>TypeError\<close>, which the engine words. (Replies that parse to any other value
  outside \<open>SettingsType\<close> are not modelled.)
\<close>

definition fetchConfig_settle_null :: "string \<Rightarrow> state \<Rightarrow> state" where
  "fetchConfig_settle_null error s =
     (let s' = s\<lparr>config := None,
                 effects := effects s @ [ConsoleError ''Error fetching config:'' error]\<rparr>
      in s'\<lparr>isLoading := False\<rparr>)"

subsection \<open>The render (lines 169-549)\<close>

text \<open>One \<open>SelectOption\<close>: its value, its label and whether it is disabled.\<close>

datatype select_option = SelectOption string string bool

text \<open>
  The options of a model picker (lines 250-277 and 361-388):
  \<open>providers[selected]\<close> is read with no guard on \<open>providers\<close>, so a missing mapping
  throws a \<open>TypeError\<close>; a provider that is not in the mapping gives the one disabled
  option \<open>Invalid provider\<close>, an empty list the one disabled option whose label is the first
  argument, any other list one option per model. (A selected name that is the name of a
  property inherited from \<open>Object.prototype\<close>, such as \<open>constructor\<close>, is not modelled
  here: it is treated as a provider that is not in the mapping.)
\<close>

definition model_options ::
  "string \<Rightarrow> providers option \<Rightarrow> string \<Rightarrow> js_error + select_option list" where
  "model_options none_label obj selected =
     (case obj of
        None \<Rightarrow> Inl TypeError
      | Some ps \<Rightarrow>
          (case map_of ps selected of
             None \<Rightarrow> Inr [SelectOption [] ''Invalid provider, please check backend logs'' True]
           | Some models \<Rightarrow>
               if length models > 0
               then Inr (map (\<lambda>m. SelectOption (name m) (ModelInfo.displayName m) False) models)
               else Inr [SelectOption [] none_label True]))"

text \<open>
  What one render puts on the screen, as far as the properties below need it: whether
  the dialog is shown (\<open>show={isOpen}\<close>, line 170), whether the form is part of it
  (\<open>config && !isLoading\<close>, line 202), the options of the two model pickers when they are
  part of the form (lines 239-280 and 351-391), the spinner (line 522) and whether the
  save button is disabled (line 534).
\<close>

record view =
  dialog_shown :: bool
  form_present :: bool
  chat_model_options :: "select_option list option"
  embedding_model_options :: "select_option list option"
  spinner_present :: bool
  save_disabled :: bool

text \<open>
  The component function evaluates the whole element tree whether or not the dialog is
  shown, so the unguarded reads in the model pickers throw in a closed dialog as well.
  The render returns the view or throws.
\<close>

definition render :: "state \<Rightarrow> js_error + view" where
  "render s =
     (let without_form =
            \<lparr>dialog_shown = isOpen s, form_present = False,
             chat_model_options = None, embedding_model_options = None,
             spinner_present = isLoading s,
             save_disabled = (isLoading s \<or> isUpdating s)\<rparr>
      in case config s of
           None \<Rightarrow> Inr without_form
         | Some c \<Rightarrow>
             if isLoading s then Inr without_form
             else
               (case (if truthy (selectedChatModelProvider s) \<and>
                         selectedChatModelProvider s \<noteq> Some ''custom_openai''
                      then map_sum id Some
                             (model_options ''No models available'' (chatModelProviders c)
                                (the (selectedChatModelProvider s)))
                      else Inr None) of
                  Inl e \<Rightarrow> Inl e
                | Inr chat \<Rightarrow>
                    (case (if truthy (selectedEmbeddingModelProvider s)
                           then map_sum id Some
                                  (model_options ''No embedding models available''
                                     (embeddingModelProviders c)
                                     (the (selectedEmbeddingModelProvider s)))
                           else Inr None) of
                       Inl e \<Rightarrow> Inl e
                     | Inr embedding \<Rightarrow>
                         Inr (without_form\<lparr>form_present := True,
                                            chat_model_options := chat,
                                            embedding_model_options := embedding\<rparr>))))"

text \<open>The form is on the screen: the render returns, the dialog is shown and has the form.\<close>

definition form_rendered :: "state \<Rightarrow> bool" where
  "form_rendered s =
     (case render s of Inl e \<Rightarrow> False | Inr v \<Rightarrow> dialog_shown v \<and> form_present v)"

text \<open>The save button can be pressed: it is on the screen and not disabled.\<close>

definition save_enabled :: "state \<Rightarrow> bool" where
  "save_enabled s =
     (case render s of Inl e \<Rightarrow> False | Inr v \<Rightarrow> dialog_shown v \<and> \<not> save_disabled v)"

subsection \<open>Events and runs of the editor\<close>

text \<open>
  What can happen to the editor, one event at a time:
  \<^item> the page is loaded (also by the reload after a save): the component starts from its
    initial state, and local storage persists;
  \<^item> the parent opens the dialog: the effect hook starts \<open>fetchConfig\<close>;
  \<^item> the pending request settles, with a document, with an error, or with a body that
    parses to \<open>null\<close>;
  \<^item> the dialog is closed (\<open>onClose\<close>, line 174);
  \<^item> the save button is pressed, when it is enabled; the argument is how the \<open>POST\<close>
    settles;
  \<^item> a handler of an element of the form runs, when the form is on the screen. The
    handlers of the form are the two provider selectors above and setters of single
    fields; here a form handler is any function on the state.

  A settle event is accepted at any time, so the runs below include every real run, in
  which a settle answers an earlier open.
\<close>

datatype event =
  PageLoaded
| Opened
| Settled "string + SettingsType"
| SettledNull string
| Closed
| SaveClicked "string + unit"
| FormHandler "state \<Rightarrow> state"

fun step :: "event \<Rightarrow> state \<Rightarrow> state" where
  "step PageLoaded s = (initial_state (localStorage s))\<lparr>effects := effects s\<rparr>"
| "step Opened s = (if isOpen s then s else fetchConfig_start (s\<lparr>isOpen := True\<rparr>))"
| "step (Settled res) s = fetchConfig_settle res s"
| "step (SettledNull error) s = fetchConfig_settle_null error s"
| "step Closed s = s\<lparr>isOpen := False\<rparr>"
| "step (SaveClicked res) s = (if save_enabled s then handleSubmit res s else s)"
| "step (FormHandler f) s = (if form_rendered s then f s else s)"

fun run :: "event list \<Rightarrow> state \<Rightarrow> state" where
  "run [] s = s"
| "run (e # es) s = run es (step e s)"

text \<open>The event is a fetch that succeeds: the request settles with a document.\<close>

fun fetch_succeeded :: "event \<Rightarrow> bool" where
  "fetch_succeeded (Settled (Inr data)) = True"
| "fetch_succeeded e = False"

section \<open>Provider Loader (src/lib/providers/openrouter.ts)\<close>

text \<open>
  The two argument objects of \<open>new ChatOpenAI(fields, configuration)\<close>. The temperature
  is kept as the decimal literal of the source, \<open>0.7\<close>, read as the fraction 7/10.
\<close>

record chat_openai_fields =
  openAIApiKey :: string
  modelName :: string
  temperature :: rat

record client_configuration =
  baseURL :: string
  defaultHeaders :: "string js_object"

text \<open>One entry of the returned object: a label and the constructed client.\<close>

record 'c chat_model =
  displayName :: string
  model :: 'c

text \<open>
  What the loader does besides returning: it calls the client constructor and it calls
  \<open>logger.error\<close>. Both are recorded, in order.
\<close>

datatype loader_effect =
  NewChatOpenAI chat_openai_fields client_configuration
| LoggerError string

text \<open>
  The constructor belongs to an external package, so it is a parameter: it returns the
  client (\<open>Inr\<close>) or throws (\<open>Inl\<close>, carrying the text that the template literal
  \<open>${err}\<close> renders). The three configuration accessors are read first; their values are
  the other parameters. The result is what the \<open>async\<close> function settles with
  (\<open>Inl\<close> would be a rejection) and the effects it performed.
\<close>

definition loadOpenRouterChatModels ::
  "(chat_openai_fields \<Rightarrow> client_configuration \<Rightarrow> string + 'c) \<Rightarrow>
   string option \<Rightarrow> string option \<Rightarrow> string option \<Rightarrow>
   (string + 'c chat_model js_object) \<times> loader_effect list" where
  "loadOpenRouterChatModels new_ChatOpenAI openRouterApiKey httpReferer appName =
     (if \<not> truthy openRouterApiKey then (Inr [], [])
      else
        let fields = \<lparr>openAIApiKey = the openRouterApiKey,
                       modelName = ''google/gemini-2.0-flash-thinking-exp:free'',
                       temperature = 7 / 10\<rparr>;
            configuration = \<lparr>baseURL = ''https://openrouter.ai/api/v1'',
                              defaultHeaders = [(''HTTP-Referer'', or_else httpReferer ''''),
                                                (''X-Title'', or_else appName '''')]\<rparr>
        in case new_ChatOpenAI fields configuration of
             Inr client \<Rightarrow>
               (Inr [(''gemini-2'', \<lparr>displayName = ''Gemini 2.0'', model = client\<rparr>)],
                [NewChatOpenAI fields configuration])
           | Inl err \<Rightarrow>
               (Inr [],
                [NewChatOpenAI fields configuration,
                 LoggerError (''Error loading OpenRouter models: '' @ err)]))"

text \<open>
  Two constructors to run the loader on: one that always succeeds and returns its two
  arguments as the client, and one that always throws.
\<close>

definition recording_ChatOpenAI ::
  "chat_openai_fields \<Rightarrow> client_configuration \<Rightarrow>
   string + (chat_openai_fields \<times> client_configuration)" where
  "recording_ChatOpenAI args opts = Inr (args, opts)"

definition throwing_ChatOpenAI ::
  "chat_openai_fields \<Rightarrow> client_configuration \<Rightarrow>
   string + (chat_openai_fields \<times> client_configuration)" where
  "throwing_ChatOpenAI args opts = Inl ''Error: OpenAI client could not be created''"

section \<open>The default selections as the specification words them\<close>

text \<open>
  The provider is the locally stored value when one is stored and is not the empty
  string, else the first key of the provider mapping, else the empty string.
\<close>

fun spec_default_provider :: "string option \<Rightarrow> providers option \<Rightarrow> string" where
  "spec_default_provider (Some (c # cs)) _ = c # cs"
| "spec_default_provider _ (Some ((k, _) # _)) = k"
| "spec_default_provider _ _ = []"

text \<open>
  The model is the locally stored value when one is stored and is not the empty string,
  else the name of the first model in the list of the resolved provider, else the empty
  string.
\<close>

fun spec_default_model :: "string option \<Rightarrow> providers option \<Rightarrow> string \<Rightarrow> string" where
  "spec_default_model (Some (c # cs)) _ _ = c # cs"
| "spec_default_model _ None _ = []"
| "spec_default_model _ (Some ps) p =
     (case map_of ps p of Some (m # _) \<Rightarrow> name m | _ \<Rightarrow> [])"

section \<open>Concrete inputs\<close>

text \<open>The document \<open>{a: [{name: "x", displayName: "X"}], b: []}\<close>, for both mappings.\<close>

definition config_a_b :: SettingsType where
  "config_a_b =
     \<lparr>chatModelProviders =
        Some [(''a'', [\<lparr>name = ''x'', ModelInfo.displayName = ''X''\<rparr>]), (''b'', [])],
      embeddingModelProviders =
        Some [(''a'', [\<lparr>name = ''x'', ModelInfo.displayName = ''X''\<rparr>]), (''b'', [])],
      openaiApiKey = [], groqApiKey = [], anthropicApiKey = [], geminiApiKey = [],
      openrouterApiKey = [], openrouterHttpReferer = [], openrouterAppName = [],
      ollamaApiUrl = []\<rparr>"

text \<open>A document that lists the custom endpoint under both mappings.\<close>

definition config_custom_openai :: SettingsType where
  "config_custom_openai =
     \<lparr>chatModelProviders =
        Some [(''openai'', [\<lparr>name = ''gpt-4o'', ModelInfo.displayName = ''GPT-4 omni''\<rparr>]),
              (''custom_openai'', [])],
      embeddingModelProviders =
        Some [(''openai'', [\<lparr>name = ''text-embedding-3-small'',
                              ModelInfo.displayName = ''Text Embedding 3 Small''\<rparr>]),
              (''custom_openai'', [\<lparr>name = ''my-embedder'',
                                      ModelInfo.displayName = ''My embedder''\<rparr>])],
      openaiApiKey = [], groqApiKey = [], anthropicApiKey = [], geminiApiKey = [],
      openrouterApiKey = [], openrouterHttpReferer = [], openrouterAppName = [],
      ollamaApiUrl = []\<rparr>"

text \<open>
  The editor after a first open on which the document arrived, for a given local storage.
\<close>

definition opened_state :: "(string \<rightharpoonup> string) \<Rightarrow> SettingsType \<Rightarrow> state" where
  "opened_state storage data =
     useEffect_isOpen (Inr data) ((initial_state storage)\<lparr>isOpen := True\<rparr>)"

section \<open>Provider Loader: properties\<close>

text \<open>
  C6. When the API key is absent (undefined or the empty string), the loader returns the
  empty object at once: it settles normally, it never calls the client constructor and
  logs nothing, whatever the constructor would do and whatever the attribution header and
  application name are.
\<close>

theorem loadOpenRouterChatModels_no_key:
  "loadOpenRouterChatModels ctor None referer app = (Inr [], []) \<and>
   loadOpenRouterChatModels ctor (Some '''') referer app = (Inr [], [])"
  by (simp add: loadOpenRouterChatModels_def truthy_def)

text \<open>
  C5 (as stated). The claim lets the display name follow the configured attribution
  values and promises one entry whenever the key is configured. With the key
  \<open>sk-or-1\<close>, the referer \<open>https://example.org\<close> and the application name \<open>MyApp\<close>, the
  entry's display name is the fixed label \<open>Gemini 2.0\<close>, which is neither attribution
  value; and with the same settings and a constructor that throws, the result has no
  entry at all.
\<close>

theorem loadOpenRouterChatModels_displayName_counterexample:
  "map_option displayName
     (map_of (projr (fst (loadOpenRouterChatModels recording_ChatOpenAI
        (Some ''sk-or-1'') (Some ''https://example.org'') (Some ''MyApp'')))) ''gemini-2'')
     = Some ''Gemini 2.0'' \<and>
   ''Gemini 2.0'' \<noteq> ''MyApp'' \<and> ''Gemini 2.0'' \<noteq> ''https://example.org'' \<and>
   fst (loadOpenRouterChatModels throwing_ChatOpenAI
        (Some ''sk-or-1'') (Some ''https://example.org'') (Some ''MyApp'')) = Inr []"
  by (simp add: loadOpenRouterChatModels_def truthy_def or_else_def Let_def
      recording_ChatOpenAI_def throwing_ChatOpenAI_def)

text \<open>
  C5 (amended). When the API key is a non-empty string and the client constructor
  returns, the loader returns an object with exactly one entry, keyed \<open>gemini-2\<close>. Its
  display name is the fixed label \<open>Gemini 2.0\<close>; its client is the one the constructor
  returned for the configured key, the model identifier
  \<open>google/gemini-2.0-flash-thinking-exp:free\<close>, the temperature 0.7, the base URL
  \<open>https://openrouter.ai/api/v1\<close> and the headers \<open>HTTP-Referer\<close> and \<open>X-Title\<close>, which
  carry the configured referer and application name (the empty string for one that is
  not configured). The constructor is called once and nothing is logged.
\<close>

theorem loadOpenRouterChatModels_with_key:
  assumes "key \<noteq> []"
    and "ctor \<lparr>openAIApiKey = key,
                modelName = ''google/gemini-2.0-flash-thinking-exp:free'',
                temperature = 7 / 10\<rparr>
              \<lparr>baseURL = ''https://openrouter.ai/api/v1'',
                defaultHeaders =
                  [(''HTTP-Referer'', case referer of None \<Rightarrow> [] | Some r \<Rightarrow> r),
                   (''X-Title'', case app of None \<Rightarrow> [] | Some a \<Rightarrow> a)]\<rparr> = Inr client"
  shows "loadOpenRouterChatModels ctor (Some key) referer app =
     (Inr [(''gemini-2'', \<lparr>displayName = ''Gemini 2.0'', model = client\<rparr>)],
      [NewChatOpenAI
         \<lparr>openAIApiKey = key,
           modelName = ''google/gemini-2.0-flash-thinking-exp:free'',
           temperature = 7 / 10\<rparr>
         \<lparr>baseURL = ''https://openrouter.ai/api/v1'',
           defaultHeaders =
             [(''HTTP-Referer'', case referer of None \<Rightarrow> [] | Some r \<Rightarrow> r),
              (''X-Title'', case app of None \<Rightarrow> [] | Some a \<Rightarrow> a)]\<rparr>])"
proof -
  have r: "or_else referer [] = (case referer of None \<Rightarrow> [] | Some r \<Rightarrow> r)"
    by (simp add: or_else_def truthy_def split: option.splits)
  have a: "or_else app [] = (case app of None \<Rightarrow> [] | Some a \<Rightarrow> a)"
    by (simp add: or_else_def truthy_def split: option.splits)
  from assms show ?thesis
    by (simp add: loadOpenRouterChatModels_def truthy_def r a Let_def)
qed

theorem loadOpenRouterChatModels_with_key_witness:
  "loadOpenRouterChatModels recording_ChatOpenAI
     (Some ''sk-or-1'') (Some ''https://example.org'') None =
     (Inr [(''gemini-2'',
            \<lparr>displayName = ''Gemini 2.0'',
              model = (\<lparr>openAIApiKey = ''sk-or-1'',
                         modelName = ''google/gemini-2.0-flash-thinking-exp:free'',
                         temperature = 7 / 10\<rparr>,
                       \<lparr>baseURL = ''https://openrouter.ai/api/v1'',
                         defaultHeaders = [(''HTTP-Referer'', ''https://example.org''),
                                           (''X-Title'', [])]\<rparr>)\<rparr>)],
      [NewChatOpenAI
         \<lparr>openAIApiKey = ''sk-or-1'',
           modelName = ''google/gemini-2.0-flash-thinking-exp:free'',
           temperature = 7 / 10\<rparr>
         \<lparr>baseURL = ''https://openrouter.ai/api/v1'',
           defaultHeaders = [(''HTTP-Referer'', ''https://example.org''),
                             (''X-Title'', [])]\<rparr>])"
  using loadOpenRouterChatModels_with_key
    [of "''sk-or-1''" recording_ChatOpenAI "Some ''https://example.org''" None]
  by (simp add: recording_ChatOpenAI_def)

text \<open>
  C7. Whenever the client constructor throws, the loader catches the error, logs it
  through \<open>logger.error\<close> with the prefix \<open>Error loading OpenRouter models: \<close>, and
  settles normally with the empty object: the caller sees no error.
\<close>

theorem loadOpenRouterChatModels_catches:
  assumes "truthy key"
    and "ctor \<lparr>openAIApiKey = the key,
                modelName = ''google/gemini-2.0-flash-thinking-exp:free'',
                temperature = 7 / 10\<rparr>
              \<lparr>baseURL = ''https://openrouter.ai/api/v1'',
                defaultHeaders = [(''HTTP-Referer'', or_else referer []),
                                  (''X-Title'', or_else app [])]\<rparr> = Inl err"
  shows "loadOpenRouterChatModels ctor key referer app =
     (Inr [],
      [NewChatOpenAI
         \<lparr>openAIApiKey = the key,
           modelName = ''google/gemini-2.0-flash-thinking-exp:free'',
           temperature = 7 / 10\<rparr>
         \<lparr>baseURL = ''https://openrouter.ai/api/v1'',
           defaultHeaders = [(''HTTP-Referer'', or_else referer []),
                             (''X-Title'', or_else app [])]\<rparr>,
       LoggerError (''Error loading OpenRouter models: '' @ err)])"
  using assms by (simp add: loadOpenRouterChatModels_def Let_def)

theorem loadOpenRouterChatModels_catches_witness:
  "fst (loadOpenRouterChatModels throwing_ChatOpenAI (Some ''sk-or-1'') None (Some ''MyApp''))
     = Inr [] \<and>
   last (snd (loadOpenRouterChatModels throwing_ChatOpenAI (Some ''sk-or-1'') None (Some ''MyApp'')))
     = LoggerError ''Error loading OpenRouter models: Error: OpenAI client could not be created''"
  using loadOpenRouterChatModels_catches
    [of "Some ''sk-or-1''" throwing_ChatOpenAI None "Some ''MyApp''"
        "''Error: OpenAI client could not be created''"]
  by (simp add: throwing_ChatOpenAI_def truthy_def)

section \<open>Settings Editor: properties\<close>

lemmas editor_defs =
  opened_state_def useEffect_isOpen_def fetchConfig_def fetchConfig_settle_def
  fetchConfig_start_def fetchConfig_loaded_def Let_def initial_state_def or_else_def truthy_def
  Object_keys_def or_empty_object_def optional_first_name_def

subsection \<open>Default selections\<close>

lemma or_else_first_key:
  "or_else stored
     (if length (Object_keys (or_empty_object obj)) > 0
      then Object_keys (or_empty_object obj) ! 0 else [])
   = spec_default_provider stored obj"
  by (cases "(stored, obj)" rule: spec_default_provider.cases)
     (auto simp: or_else_def truthy_def Object_keys_def or_empty_object_def)

lemma or_else_first_name:
  "or_else stored (optional_first_name obj p) = spec_default_model stored obj p"
  by (cases "(stored, obj, p)" rule: spec_default_model.cases)
     (auto simp: or_else_def truthy_def optional_first_name_def
        split: option.splits list.splits)

text \<open>
  C1 (as stated). The claim takes the locally stored value whenever one is present. With
  the empty string stored under \<open>chatModelProvider\<close> and the document
  \<open>{a: [{name: "x", displayName: "X"}], b: []}\<close>, a value is present, yet the provider
  resolves to the first key \<open>a\<close> and the model to \<open>x\<close>: \<open>||\<close> passes over an empty
  string as it passes over \<open>null\<close>.
\<close>

theorem fetchConfig_stored_empty_counterexample:
  "localStorage (initial_state (map_of [(''chatModelProvider'', [])])) ''chatModelProvider''
     = Some [] \<and>
   selectedChatModelProvider
     (fetchConfig (Inr config_a_b) (initial_state (map_of [(''chatModelProvider'', [])])))
     = Some ''a'' \<and>
   selectedChatModel
     (fetchConfig (Inr config_a_b) (initial_state (map_of [(''chatModelProvider'', [])])))
     = Some ''x''"
  by (simp add: editor_defs config_a_b_def)

text \<open>
  C1 (amended). On a successful fetch, for every document and every local storage, the
  chat (resp. embedding) provider is the locally stored value if one is stored and is
  non-empty, else the first key of the corresponding provider mapping, else the empty
  string; the chat (resp. embedding) model is the locally stored value if one is stored
  and is non-empty, else the first model name of the resolved provider's list, else the
  empty string.
\<close>

theorem fetchConfig_defaults:
  "selectedChatModelProvider (fetchConfig (Inr data) s) =
     Some (spec_default_provider (localStorage s ''chatModelProvider'')
            (chatModelProviders data)) \<and>
   selectedChatModel (fetchConfig (Inr data) s) =
     Some (spec_default_model (localStorage s ''chatModel'') (chatModelProviders data)
            (spec_default_provider (localStorage s ''chatModelProvider'')
               (chatModelProviders data))) \<and>
   selectedEmbeddingModelProvider (fetchConfig (Inr data) s) =
     Some (spec_default_provider (localStorage s ''embeddingModelProvider'')
            (embeddingModelProviders data)) \<and>
   selectedEmbeddingModel (fetchConfig (Inr data) s) =
     Some (spec_default_model (localStorage s ''embeddingModel'')
            (embeddingModelProviders data)
            (spec_default_provider (localStorage s ''embeddingModelProvider'')
               (embeddingModelProviders data)))"
  unfolding fetchConfig_def fetchConfig_settle_def fetchConfig_start_def
    fetchConfig_loaded_def Let_def or_else_first_key or_else_first_name
  by simp

text \<open>
  The instance named in C1: for the document \<open>{a: [{name: "x", displayName: "X"}], b: []}\<close>
  and no local preference the provider is \<open>a\<close> and the model \<open>x\<close>; when the provider
  resolves to \<open>b\<close> (stored locally), the model is the empty string.
\<close>

theorem fetchConfig_defaults_witness:
  "selectedChatModelProvider (fetchConfig (Inr config_a_b) (initial_state (map_of [])))
     = Some ''a'' \<and>
   selectedChatModel (fetchConfig (Inr config_a_b) (initial_state (map_of [])))
     = Some ''x'' \<and>
   selectedChatModelProvider
     (fetchConfig (Inr config_a_b) (initial_state (map_of [(''chatModelProvider'', ''b'')])))
     = Some ''b'' \<and>
   selectedChatModel
     (fetchConfig (Inr config_a_b) (initial_state (map_of [(''chatModelProvider'', ''b'')])))
     = Some []"
  using fetchConfig_defaults [of config_a_b "initial_state (map_of [])"]
    fetchConfig_defaults [of config_a_b "initial_state (map_of [(''chatModelProvider'', ''b'')])"]
  by (simp add: config_a_b_def initial_state_def)

subsection \<open>A failed fetch\<close>

lemma form_rendered_needs_document: "config s = None \<Longrightarrow> \<not> form_rendered s"
  by (simp add: form_rendered_def render_def)

lemma step_keeps_no_document:
  "config s = None \<Longrightarrow> \<not> fetch_succeeded e \<Longrightarrow> config (step e s) = None"
proof (cases e)
  case (Settled res)
  assume "config s = None" and "\<not> fetch_succeeded e"
  with Settled show ?thesis
    by (cases res) (simp_all add: fetchConfig_settle_def)
next
  case (SaveClicked res)
  assume "config s = None"
  with SaveClicked show ?thesis
    by (simp add: handleSubmit_def)
next
  case (FormHandler f)
  assume "config s = None"
  with FormHandler show ?thesis
    by (simp add: form_rendered_needs_document)
qed (simp_all add: initial_state_def fetchConfig_start_def fetchConfig_settle_null_def)

lemma run_keeps_no_document:
  "config s = None \<Longrightarrow> \<forall>e \<in> set es. \<not> fetch_succeeded e \<Longrightarrow> config (run es s) = None"
proof (induction es arbitrary: s)
  case Nil
  then show ?case by simp
next
  case (Cons e es)
  from Cons.prems have "config (step e s) = None"
    by (simp add: step_keeps_no_document)
  with Cons.prems Cons.IH [of "step e s"] show ?case
    by simp
qed

text \<open>
  C3 (as stated). The claim keeps the loading flag set for ever after a failed fetch. On
  a first open the flag is set while the request is pending, and it is cleared once the
  request has failed: the \<open>finally\<close> block runs after the \<open>catch\<close>.
\<close>

theorem fetchConfig_failure_clears_loading_counterexample:
  "isLoading (fetchConfig_start ((initial_state (map_of []))\<lparr>isOpen := True\<rparr>)) \<and>
   \<not> isLoading (useEffect_isOpen (Inl ''TypeError: Failed to fetch'')
                  ((initial_state (map_of []))\<lparr>isOpen := True\<rparr>))"
  by (simp add: useEffect_isOpen_def fetchConfig_def fetchConfig_settle_def
      fetchConfig_start_def initial_state_def)

text \<open>
  C3 (amended). When the configuration fetch on dialog open fails, the failure is only
  logged and the loading flag is then cleared, so the editor does not stay in the Loading
  phase. When the error is thrown by the request or by parsing the body, the document and
  every other piece of editor state are left as they were; when the body parses to
  \<open>null\<close>, the document is reset to none before the error is thrown. If no document was
  loaded before the failure, the form is not on the screen after it, and it stays off the
  screen through every later sequence of editor events in which no fetch succeeds.
\<close>

theorem fetchConfig_failure:
  "fetchConfig (Inl err) s =
     s\<lparr>isLoading := False,
        effects := effects s @ [Fetch GET_config, ConsoleError ''Error fetching config:'' err]\<rparr> \<and>
   fetchConfig_settle_null err (fetchConfig_start s) =
     s\<lparr>config := None, isLoading := False,
        effects := effects s @ [Fetch GET_config, ConsoleError ''Error fetching config:'' err]\<rparr> \<and>
   (config s = None \<and> (\<forall>e \<in> set es. \<not> fetch_succeeded e) \<longrightarrow>
      config (run es (fetchConfig (Inl err) s)) = None \<and>
      \<not> form_rendered (run es (fetchConfig (Inl err) s)) \<and>
      \<not> form_rendered (run es (fetchConfig_settle_null err (fetchConfig_start s))))"
proof (intro conjI impI)
  show a: "fetchConfig (Inl err) s =
     s\<lparr>isLoading := False,
        effects := effects s @ [Fetch GET_config, ConsoleError ''Error fetching config:'' err]\<rparr>"
    by (simp add: fetchConfig_def fetchConfig_settle_def fetchConfig_start_def)
  show "fetchConfig_settle_null err (fetchConfig_start s) =
     s\<lparr>config := None, isLoading := False,
        effects := effects s @ [Fetch GET_config, ConsoleError ''Error fetching config:'' err]\<rparr>"
    by (simp add: fetchConfig_settle_null_def fetchConfig_start_def)
  assume h: "config s = None \<and> (\<forall>e \<in> set es. \<not> fetch_succeeded e)"
  from h have "config (fetchConfig (Inl err) s) = None"
    by (simp add: a)
  with h show b: "config (run es (fetchConfig (Inl err) s)) = None"
    by (simp add: run_keeps_no_document)
  from b show "\<not> form_rendered (run es (fetchConfig (Inl err) s))"
    by (rule form_rendered_needs_document)
  have "config (fetchConfig_settle_null err (fetchConfig_start s)) = None"
    by (simp add: fetchConfig_settle_null_def)
  with h have "config (run es (fetchConfig_settle_null err (fetchConfig_start s))) = None"
    by (simp add: run_keeps_no_document)
  then show "\<not> form_rendered (run es (fetchConfig_settle_null err (fetchConfig_start s)))"
    by (rule form_rendered_needs_document)
qed

text \<open>
  A run of the amended C3: the first open fails; afterwards the dialog is closed,
  opened again with a second failure, the save button is pressed, the dialog is closed
  and opened once more and the body parses to \<open>null\<close>. The form is not on the screen at
  the end.
\<close>

theorem fetchConfig_failure_witness:
  "fetchConfig (Inl ''TypeError: Failed to fetch'') ((initial_state (map_of []))\<lparr>isOpen := True\<rparr>) =
     (initial_state (map_of []))
       \<lparr>isOpen := True,
        effects := [Fetch GET_config,
                    ConsoleError ''Error fetching config:'' ''TypeError: Failed to fetch'']\<rparr> \<and>
   \<not> isLoading (fetchConfig (Inl ''TypeError: Failed to fetch'')
                  ((initial_state (map_of []))\<lparr>isOpen := True\<rparr>)) \<and>
   \<not> form_rendered
       (run [Closed, Opened, Settled (Inl ''SyntaxError: Unexpected token''),
             SaveClicked (Inr ()), Closed, Opened, SettledNull ''TypeError'']
          (fetchConfig (Inl ''TypeError: Failed to fetch'')
             ((initial_state (map_of []))\<lparr>isOpen := True\<rparr>)))"
proof -
  let ?s = "(initial_state (map_of []))\<lparr>isOpen := True\<rparr>"
  let ?es = "[Closed, Opened, Settled (Inl ''SyntaxError: Unexpected token''),
              SaveClicked (Inr ()), Closed, Opened, SettledNull ''TypeError'']"
  have upd: "?s\<lparr>isLoading := False, effects := effects ?s @ fx\<rparr> =
      (initial_state (map_of []))\<lparr>isOpen := True, effects := fx\<rparr>" for fx
    by (simp add: initial_state_def)
  have none: "config ?s = None"
    by (simp add: initial_state_def)
  have fails: "\<forall>e \<in> set ?es. \<not> fetch_succeeded e"
    by simp
  note f = fetchConfig_failure [of "''TypeError: Failed to fetch''" ?s ?es]
  have a: "fetchConfig (Inl ''TypeError: Failed to fetch'') ?s =
      (initial_state (map_of []))
        \<lparr>isOpen := True,
         effects := [Fetch GET_config,
                     ConsoleError ''Error fetching config:'' ''TypeError: Failed to fetch'']\<rparr>"
    using f [THEN conjunct1] upd by simp
  have b: "\<not> isLoading (fetchConfig (Inl ''TypeError: Failed to fetch'') ?s)"
    using f [THEN conjunct1] by simp
  have c: "\<not> form_rendered (run ?es (fetchConfig (Inl ''TypeError: Failed to fetch'') ?s))"
    using f [THEN conjunct2, THEN conjunct2] none fails by blast
  from a b c show ?thesis by blast
qed

text \<open>
  The bound on the runs is needed: once a later fetch succeeds, here on reopening the
  dialog, the form is on the screen.
\<close>

lemma form_rendered_after_later_success:
  "form_rendered
     (run [Closed, Opened, Settled (Inr config_a_b)]
        (fetchConfig (Inl ''TypeError: Failed to fetch'')
           ((initial_state (map_of []))\<lparr>isOpen := True\<rparr>)))"
  by (simp add: editor_defs form_rendered_def render_def model_options_def config_a_b_def)

text \<open>
  A document without a chat mapping together with a stored chat provider makes the
  render throw, so no form is on the screen although a document is loaded.
\<close>

lemma render_throws_without_chat_mapping:
  "render (opened_state (map_of [(''chatModelProvider'', ''openai'')])
             (config_a_b\<lparr>chatModelProviders := None\<rparr>)) = Inl TypeError"
  by (simp add: editor_defs render_def model_options_def config_a_b_def)

subsection \<open>Selecting a provider\<close>

text \<open>
  C4 (as stated). The claim has both selectors reset the model to the empty string when
  the custom endpoint is selected. In the embedding selector, selecting \<open>custom_openai\<close>
  on a document that lists a model for it sets the embedding model to that model's name:
  the embedding handler has no custom-endpoint case.
\<close>

theorem embedding_custom_openai_counterexample:
  "selectedEmbeddingModel
     (fst (embeddingModelProvider_onChange ''custom_openai''
        (opened_state (map_of []) config_custom_openai))) = Some ''my-embedder'' \<and>
   snd (embeddingModelProvider_onChange ''custom_openai''
        (opened_state (map_of []) config_custom_openai)) = None"
  by (simp add: embeddingModelProvider_onChange_def first_name_def editor_defs
      config_custom_openai_def)

text \<open>
  C4 (amended). With a document loaded: selecting \<open>custom_openai\<close> in the chat provider
  selector sets the chat provider to it and the chat model to the empty string; selecting
  any other chat provider whose list in the document is non-empty sets the chat model to
  the name of the first model of that list. The embedding provider selector has no
  custom-endpoint case: selecting any provider, \<open>custom_openai\<close> included, whose list in
  the document is non-empty sets the embedding model to the name of the first model of
  that list.
\<close>

theorem provider_onChange_resets_model:
  assumes "config s = Some c"
  shows "chatModelProvider_onChange ''custom_openai'' s =
           (s\<lparr>selectedChatModelProvider := Some ''custom_openai'',
               selectedChatModel := Some []\<rparr>, None) \<and>
         (v \<noteq> ''custom_openai'' \<and> chatModelProviders c = Some cps \<and>
          map_of cps v = Some (m # ms) \<longrightarrow>
            chatModelProvider_onChange v s =
              (s\<lparr>selectedChatModelProvider := Some v,
                  selectedChatModel := Some (name m)\<rparr>, None)) \<and>
         (embeddingModelProviders c = Some eps \<and> map_of eps w = Some (m' # ms') \<longrightarrow>
            embeddingModelProvider_onChange w s =
              (s\<lparr>selectedEmbeddingModelProvider := Some w,
                  selectedEmbeddingModel := Some (name m')\<rparr>, None))"
  using assms
  by (simp add: chatModelProvider_onChange_def embeddingModelProvider_onChange_def
      first_name_def Let_def)

theorem provider_onChange_resets_model_witness:
  "selectedChatModel (fst (chatModelProvider_onChange ''custom_openai''
      (opened_state (map_of []) config_custom_openai))) = Some [] \<and>
   selectedChatModel (fst (chatModelProvider_onChange ''openai''
      (opened_state (map_of []) config_custom_openai))) = Some ''gpt-4o'' \<and>
   selectedEmbeddingModel (fst (embeddingModelProvider_onChange ''openai''
      (opened_state (map_of []) config_custom_openai))) = Some ''text-embedding-3-small'' \<and>
   selectedEmbeddingModel (fst (embeddingModelProvider_onChange ''custom_openai''
      (opened_state (map_of []) config_custom_openai))) = Some ''my-embedder''"
proof -
  let ?s = "opened_state (map_of []) config_custom_openai"
  let ?cps = "[(''openai'', [\<lparr>name = ''gpt-4o'', ModelInfo.displayName = ''GPT-4 omni''\<rparr>]),
               (''custom_openai'', [])]"
  let ?eps = "[(''openai'', [\<lparr>name = ''text-embedding-3-small'',
                               ModelInfo.displayName = ''Text Embedding 3 Small''\<rparr>]),
               (''custom_openai'', [\<lparr>name = ''my-embedder'',
                                       ModelInfo.displayName = ''My embedder''\<rparr>])]"
  have c: "config ?s = Some config_custom_openai"
    by (simp add: editor_defs)
  have cps: "chatModelProviders config_custom_openai = Some ?cps"
    and eps: "embeddingModelProviders config_custom_openai = Some ?eps"
    by (simp_all add: config_custom_openai_def)
  note h = provider_onChange_resets_model [OF c]
  have 1: "selectedChatModel (fst (chatModelProvider_onChange ''custom_openai'' ?s)) = Some []"
    using h [THEN conjunct1] by simp
  have 2: "selectedChatModel (fst (chatModelProvider_onChange ''openai'' ?s)) = Some ''gpt-4o''"
    using h [where v = "''openai''" and cps = ?cps
        and m = "\<lparr>name = ''gpt-4o'', ModelInfo.displayName = ''GPT-4 omni''\<rparr>" and ms = "[]",
        THEN conjunct2, THEN conjunct1] cps
    by simp
  have 3: "selectedEmbeddingModel (fst (embeddingModelProvider_onChange ''openai'' ?s)) =
      Some ''text-embedding-3-small''"
    using h [where w = "''openai''" and eps = ?eps
        and m' = "\<lparr>name = ''text-embedding-3-small'',
                    ModelInfo.displayName = ''Text Embedding 3 Small''\<rparr>"
        and ms' = "[]", THEN conjunct2, THEN conjunct2] eps
    by simp
  have 4: "selectedEmbeddingModel (fst (embeddingModelProvider_onChange ''custom_openai'' ?s)) =
      Some ''my-embedder''"
    using h [where w = "''custom_openai''" and eps = ?eps
        and m' = "\<lparr>name = ''my-embedder'', ModelInfo.displayName = ''My embedder''\<rparr>"
        and ms' = "[]", THEN conjunct2, THEN conjunct2] eps
    by simp
  from 1 2 3 4 show ?thesis by blast
qed

text \<open>
  C10. The provider selectors are not total over legitimate documents. With a document
  loaded, selecting a chat provider other than \<open>custom_openai\<close> whose model list is
  empty makes the chat handler throw a \<open>TypeError\<close> (it reads \<open>name\<close> of element 0 of
  an empty list), after it has set the provider. Independently of the chat mapping, the
  embedding handler throws in the same way for every provider value whose list is empty,
  \<open>custom_openai\<close> included, since it has no custom-endpoint case.
\<close>

theorem provider_onChange_empty_list_throws:
  assumes "config s = Some c"
  shows "(v \<noteq> ''custom_openai'' \<and> chatModelProviders c = Some cps \<and>
          map_of cps v = Some [] \<longrightarrow>
            chatModelProvider_onChange v s =
              (s\<lparr>selectedChatModelProvider := Some v\<rparr>, Some TypeError)) \<and>
         (embeddingModelProviders c = Some eps \<and> map_of eps w = Some [] \<longrightarrow>
            embeddingModelProvider_onChange w s =
              (s\<lparr>selectedEmbeddingModelProvider := Some w\<rparr>, Some TypeError))"
  using assms
  by (simp add: chatModelProvider_onChange_def embeddingModelProvider_onChange_def
      first_name_def Let_def)

text \<open>
  Runs of C10: on the document \<open>{a: [x], b: []}\<close> selecting the chat provider \<open>b\<close>
  throws; with the embedding mapping \<open>{custom_openai: []}\<close> selecting \<open>custom_openai\<close> in
  the embedding selector throws; and on a document with no chat mapping at all and the
  embedding mapping \<open>{openai: []}\<close>, selecting \<open>openai\<close> in the embedding selector throws.
\<close>

theorem provider_onChange_empty_list_throws_witness:
  "snd (chatModelProvider_onChange ''b''
     (opened_state (map_of [])
        (config_a_b\<lparr>embeddingModelProviders := Some [(''custom_openai'', [])]\<rparr>)))
     = Some TypeError \<and>
   snd (embeddingModelProvider_onChange ''custom_openai''
     (opened_state (map_of [])
        (config_a_b\<lparr>embeddingModelProviders := Some [(''custom_openai'', [])]\<rparr>)))
     = Some TypeError \<and>
   snd (embeddingModelProvider_onChange ''openai''
     (opened_state (map_of [])
        (config_a_b\<lparr>chatModelProviders := None,
                      embeddingModelProviders := Some [(''openai'', [])]\<rparr>)))
     = Some TypeError"
proof -
  let ?c = "config_a_b\<lparr>embeddingModelProviders := Some [(''custom_openai'', [])]\<rparr>"
  let ?s = "opened_state (map_of []) ?c"
  let ?d = "config_a_b\<lparr>chatModelProviders := None,
                         embeddingModelProviders := Some [(''openai'', [])]\<rparr>"
  let ?t = "opened_state (map_of []) ?d"
  have c: "config ?s = Some ?c" and d: "config ?t = Some ?d"
    by (simp_all add: editor_defs)
  have cps: "chatModelProviders ?c =
      Some [(''a'', [\<lparr>name = ''x'', ModelInfo.displayName = ''X''\<rparr>]), (''b'', [])]"
    and eps: "embeddingModelProviders ?c = Some [(''custom_openai'', [])]"
    and eps': "embeddingModelProviders ?d = Some [(''openai'', [])]"
    by (simp_all add: config_a_b_def)
  have 1: "snd (chatModelProvider_onChange ''b'' ?s) = Some TypeError"
    using provider_onChange_empty_list_throws [OF c,
        where v = "''b''"
          and cps = "[(''a'', [\<lparr>name = ''x'', ModelInfo.displayName = ''X''\<rparr>]), (''b'', [])]",
        THEN conjunct1] cps
    by simp
  have 2: "snd (embeddingModelProvider_onChange ''custom_openai'' ?s) = Some TypeError"
    using provider_onChange_empty_list_throws [OF c,
        where w = "''custom_openai''" and eps = "[(''custom_openai'', [])]",
        THEN conjunct2] eps
    by simp
  have 3: "snd (embeddingModelProvider_onChange ''openai'' ?t) = Some TypeError"
    using provider_onChange_empty_list_throws [OF d,
        where w = "''openai''" and eps = "[(''openai'', [])]", THEN conjunct2] eps'
    by simp
  from 1 2 3 show ?thesis by blast
qed

subsection \<open>Saving\<close>

lemma setItem_if_truthy_apply:
  "setItem_if_truthy k sel storage k' =
     (if k' = k \<and> sel \<noteq> None \<and> sel \<noteq> Some [] then sel else storage k')"
  by (auto simp: setItem_if_truthy_def setItem_def truthy_def split: option.splits)

lemma setItem_apply: "setItem k v storage k' = (if k' = k then Some v else storage k')"
  by (simp add: setItem_def)

lemma nonempty_selection_case:
  "(case sel of None \<Rightarrow> d | Some [] \<Rightarrow> d | Some (x # xs) \<Rightarrow> Some (x # xs)) =
     (if sel \<noteq> None \<and> sel \<noteq> Some [] then sel else d)"
  by (simp split: option.splits list.splits)

text \<open>
  C2 (as stated). The claim has every save write the two custom-endpoint entries, and
  the selection entries that are non-empty. A save whose \<open>POST\<close> request rejects writes
  nothing: with the document loaded and the chat provider \<open>a\<close> selected, neither
  \<open>chatModelProvider\<close> nor \<open>openAIApiKey\<close> is stored afterwards.
\<close>

theorem handleSubmit_rejected_writes_nothing_counterexample:
  "config (opened_state (map_of []) config_a_b) = Some config_a_b \<and>
   selectedChatModelProvider (opened_state (map_of []) config_a_b) = Some ''a'' \<and>
   localStorage (handleSubmit (Inl ''TypeError: Failed to fetch'')
                   (opened_state (map_of []) config_a_b)) ''chatModelProvider'' = None \<and>
   localStorage (handleSubmit (Inl ''TypeError: Failed to fetch'')
                   (opened_state (map_of []) config_a_b)) ''openAIApiKey'' = None"
  by (simp add: handleSubmit_def editor_defs config_a_b_def)

text \<open>
  C2 (amended). On a save with a document loaded whose \<open>POST\<close> request resolves, the
  locally persisted chat provider, chat model, embedding provider and embedding model
  entries are each written if and only if the corresponding current selection is
  non-empty (a previously stored value is left unchanged when the selection is empty or
  null), whereas the custom-endpoint API key and base URL entries are written
  unconditionally with the current field values, even when empty; no other entry
  changes. When the request rejects, nothing is written.
\<close>

theorem handleSubmit_persists:
  assumes "config s = Some c"
  shows "localStorage (handleSubmit (Inr r) s) ''chatModelProvider'' =
           (case selectedChatModelProvider s of
              Some (x # xs) \<Rightarrow> Some (x # xs)
            | _ \<Rightarrow> localStorage s ''chatModelProvider'') \<and>
         localStorage (handleSubmit (Inr r) s) ''chatModel'' =
           (case selectedChatModel s of
              Some (x # xs) \<Rightarrow> Some (x # xs)
            | _ \<Rightarrow> localStorage s ''chatModel'') \<and>
         localStorage (handleSubmit (Inr r) s) ''embeddingModelProvider'' =
           (case selectedEmbeddingModelProvider s of
              Some (x # xs) \<Rightarrow> Some (x # xs)
            | _ \<Rightarrow> localStorage s ''embeddingModelProvider'') \<and>
         localStorage (handleSubmit (Inr r) s) ''embeddingModel'' =
           (case selectedEmbeddingModel s of
              Some (x # xs) \<Rightarrow> Some (x # xs)
            | _ \<Rightarrow> localStorage s ''embeddingModel'') \<and>
         localStorage (handleSubmit (Inr r) s) ''openAIApiKey'' = Some (customOpenAIApiKey s) \<and>
         localStorage (handleSubmit (Inr r) s) ''openAIBaseURL'' = Some (customOpenAIBaseURL s) \<and>
         (k \<notin> {''chatModelProvider'', ''chatModel'', ''embeddingModelProvider'',
                ''embeddingModel'', ''openAIApiKey'', ''openAIBaseURL''} \<longrightarrow>
            localStorage (handleSubmit (Inr r) s) k = localStorage s k) \<and>
         localStorage (handleSubmit (Inl e) s) = localStorage s"
  using assms
  by (simp add: handleSubmit_def Let_def setItem_if_truthy_apply setItem_apply
      nonempty_selection_case)

text \<open>
  A run of the amended C2: the model \<open>x\<close> is stored, the dialog opens, the user selects
  the custom endpoint (which empties the model field) and saves. The provider is
  written, the stored model \<open>x\<close> stays, the empty API key is written, and the unrelated
  entry \<open>theme\<close> stays.
\<close>

theorem handleSubmit_persists_witness:
  "selectedChatModelProvider
     (fst (chatModelProvider_onChange ''custom_openai''
        (opened_state (map_of [(''chatModel'', ''x''), (''theme'', ''dark'')])
           config_custom_openai)))
     = Some ''custom_openai'' \<and>
   selectedChatModel
     (fst (chatModelProvider_onChange ''custom_openai''
        (opened_state (map_of [(''chatModel'', ''x''), (''theme'', ''dark'')])
           config_custom_openai)))
     = Some [] \<and>
   localStorage (handleSubmit (Inr ())
     (fst (chatModelProvider_onChange ''custom_openai''
        (opened_state (map_of [(''chatModel'', ''x''), (''theme'', ''dark'')])
           config_custom_openai))))
     ''chatModelProvider'' = Some ''custom_openai'' \<and>
   localStorage (handleSubmit (Inr ())
     (fst (chatModelProvider_onChange ''custom_openai''
        (opened_state (map_of [(''chatModel'', ''x''), (''theme'', ''dark'')])
           config_custom_openai))))
     ''chatModel'' = Some ''x'' \<and>
   localStorage (handleSubmit (Inr ())
     (fst (chatModelProvider_onChange ''custom_openai''
        (opened_state (map_of [(''chatModel'', ''x''), (''theme'', ''dark'')])
           config_custom_openai))))
     ''openAIApiKey'' = Some [] \<and>
   localStorage (handleSubmit (Inr ())
     (fst (chatModelProvider_onChange ''custom_openai''
        (opened_state (map_of [(''chatModel'', ''x''), (''theme'', ''dark'')])
           config_custom_openai))))
     ''theme'' = Some ''dark''"
proof -
  let ?s = "fst (chatModelProvider_onChange ''custom_openai''
        (opened_state (map_of [(''chatModel'', ''x''), (''theme'', ''dark'')])
           config_custom_openai))"
  have s: "config ?s = Some config_custom_openai"
    "selectedChatModelProvider ?s = Some ''custom_openai''"
    "selectedChatModel ?s = Some []"
    "customOpenAIApiKey ?s = []"
    "localStorage ?s ''chatModel'' = Some ''x''"
    "localStorage ?s ''theme'' = Some ''dark''"
    by (simp_all add: chatModelProvider_onChange_def editor_defs)
  from handleSubmit_persists [OF s(1), where r = "()" and k = "''theme''"] s
  show ?thesis by simp
qed

text \<open>
  C8. For every save started with a document loaded, the editor submits the document
  and then, whether the request resolves or rejects, clears the updating flag, closes the
  dialog and reloads the page. A rejection is only logged: apart from the log line and
  the local-storage writes that are skipped, the editor ends in the same state as after a
  successful save, which is the state before the save with the dialog closed.
\<close>

theorem handleSubmit_closes_and_reloads:
  assumes "config s = Some c"
  shows "effects (handleSubmit (Inr r) s) = effects s @ [Fetch (POST_config c), Reload] \<and>
         effects (handleSubmit (Inl e) s) =
           effects s @ [Fetch (POST_config c), ConsoleError ''Error updating config:'' e,
                        Reload] \<and>
         \<not> isOpen (handleSubmit res s) \<and>
         \<not> isUpdating (handleSubmit res s) \<and>
         handleSubmit (Inl e) s =
           s\<lparr>isUpdating := False, isOpen := False,
              effects := effects s @ [Fetch (POST_config c),
                                      ConsoleError ''Error updating config:'' e, Reload]\<rparr> \<and>
         (handleSubmit (Inl e) s)\<lparr>localStorage := l, effects := fx\<rparr> =
           (handleSubmit (Inr r) s)\<lparr>localStorage := l, effects := fx\<rparr>"
  using assms by (simp add: handleSubmit_def Let_def split: sum.splits)

theorem handleSubmit_closes_and_reloads_witness:
  "effects (handleSubmit (Inr ()) (opened_state (map_of []) config_a_b)) =
     [Fetch GET_config, Fetch (POST_config config_a_b), Reload] \<and>
   effects (handleSubmit (Inl ''TypeError: Failed to fetch'')
              (opened_state (map_of []) config_a_b)) =
     [Fetch GET_config, Fetch (POST_config config_a_b),
      ConsoleError ''Error updating config:'' ''TypeError: Failed to fetch'', Reload] \<and>
   \<not> isOpen (handleSubmit (Inl ''TypeError: Failed to fetch'')
                (opened_state (map_of []) config_a_b)) \<and>
   \<not> isOpen (handleSubmit (Inr ()) (opened_state (map_of []) config_a_b))"
proof -
  let ?s = "opened_state (map_of []) config_a_b"
  have c: "config ?s = Some config_a_b"
    and fx: "effects ?s = [Fetch GET_config]"
    by (simp_all add: editor_defs)
  note h = handleSubmit_closes_and_reloads [OF c]
  have 1: "effects (handleSubmit (Inr ()) ?s) =
     [Fetch GET_config, Fetch (POST_config config_a_b), Reload]"
    using h [where r = "()", THEN conjunct1] fx by simp
  have 2: "effects (handleSubmit (Inl ''TypeError: Failed to fetch'') ?s) =
     [Fetch GET_config, Fetch (POST_config config_a_b),
      ConsoleError ''Error updating config:'' ''TypeError: Failed to fetch'', Reload]"
    using h [where e = "''TypeError: Failed to fetch''", THEN conjunct2, THEN conjunct1] fx
    by simp
  have 3: "\<not> isOpen (handleSubmit (Inl ''TypeError: Failed to fetch'') ?s)"
    using h [where res = "Inl ''TypeError: Failed to fetch''"] by blast
  have 4: "\<not> isOpen (handleSubmit (Inr ()) ?s)"
    using h [where res = "Inr ()"] by blast
  from 1 2 3 4 show ?thesis by blast
qed

text \<open>
  C9. When the save action runs while no document is loaded, the handler returns at
  once: the whole state is unchanged, so no request is sent, no local-storage entry is
  written, the dialog stays as it is and no reload happens, however the request would
  have settled.
\<close>

theorem handleSubmit_without_document:
  "config s = None \<Longrightarrow> handleSubmit res s = s"
  by (simp add: handleSubmit_def)

theorem handleSubmit_without_document_witness:
  "config (initial_state (map_of [])) = None \<and>
   handleSubmit (Inr ()) (initial_state (map_of [])) = initial_state (map_of []) \<and>
   handleSubmit (Inl ''TypeError: Failed to fetch'') (initial_state (map_of []))
     = initial_state (map_of []) \<and>
   handleSubmit (Inr ())
     (useEffect_isOpen (Inl ''TypeError: Failed to fetch'')
        ((initial_state (map_of []))\<lparr>isOpen := True\<rparr>))
     = useEffect_isOpen (Inl ''TypeError: Failed to fetch'')
         ((initial_state (map_of []))\<lparr>isOpen := True\<rparr>)"
proof -
  let ?t = "useEffect_isOpen (Inl ''TypeError: Failed to fetch'')
              ((initial_state (map_of []))\<lparr>isOpen := True\<rparr>)"
  have none: "config (initial_state (map_of [])) = None"
    by (simp add: initial_state_def)
  have none': "config ?t = None"
    by (simp add: editor_defs)
  from none handleSubmit_without_document [OF none, of "Inr ()"]
    handleSubmit_without_document [OF none, of "Inl ''TypeError: Failed to fetch''"]
    handleSubmit_without_document [OF none', of "Inr ()"]
  show ?thesis by blast
qed

end
